theory Spec2Isabelle
  imports Main "HOL-Library.AList"
begin

section \<open>JavaScript values reachable from the RVM message bus\<close>

text \<open>
  The bus handles values that come out of \<^verbatim>\<open>JSON.parse\<close> and the message objects its
  callers build. Numbers are restricted to integers (process ids, seconds); objects are
  association lists in property order, read with \<^const>\<open>map_of\<close>.
\<close>

datatype jsval =
    JUndef
  | JNull
  | JBool bool
  | JNum int
  | JStr string
  | JArr "jsval list"
  | JObj "(string \<times> jsval) list"

text \<open>ToBoolean, as used by \<^verbatim>\<open>!msg\<close>, \<^verbatim>\<open>if (payload.error)\<close> and \<^verbatim>\<open>topic && payload && action\<close>.\<close>

fun truthy :: "jsval \<Rightarrow> bool" where
  "truthy JUndef = False"
| "truthy JNull = False"
| "truthy (JBool b) = b"
| "truthy (JNum n) = (n \<noteq> 0)"
| "truthy (JStr s) = (s \<noteq> [])"
| "truthy (JArr xs) = True"
| "truthy (JObj kvs) = True"

text \<open>\<^verbatim>\<open>typeof v === 'object'\<close>: true of null, arrays and plain objects.\<close>

fun typeof_object :: "jsval \<Rightarrow> bool" where
  "typeof_object JNull = True"
| "typeof_object (JArr xs) = True"
| "typeof_object (JObj kvs) = True"
| "typeof_object v = False"

text \<open>Reading a property of null or undefined raises a TypeError.\<close>

fun nullish :: "jsval \<Rightarrow> bool" where
  "nullish JUndef = True"
| "nullish JNull = True"
| "nullish v = False"

text \<open>
  \<^verbatim>\<open>v.k\<close> on a value that is not null or undefined, for the property names the bus reads
  (\<^verbatim>\<open>topic\<close>, \<^verbatim>\<open>timeToLive\<close>, \<^verbatim>\<open>messageId\<close>, \<^verbatim>\<open>broadcast\<close>, \<^verbatim>\<open>payload\<close>, \<^verbatim>\<open>action\<close>, \<^verbatim>\<open>error\<close>):
  none of them is an array index, \<^verbatim>\<open>length\<close> or a member of a built-in prototype, so
  only plain objects can hold them.
\<close>

fun get_prop :: "jsval \<Rightarrow> string \<Rightarrow> jsval" where
  "get_prop (JObj kvs) k = (case map_of kvs k of Some v \<Rightarrow> v | None \<Rightarrow> JUndef)"
| "get_prop v k = JUndef"

text \<open>
  underscore's \<^verbatim>\<open>_.has(obj, key)\<close> is \<^verbatim>\<open>obj != null && hasOwnProperty.call(obj, key)\<close>;
  for the same property names only a plain object owns the key.
\<close>

fun has_own :: "jsval \<Rightarrow> string \<Rightarrow> bool" where
  "has_own (JObj kvs) k = (k \<in> fst ` set kvs)"
| "has_own v k = False"

fun decimal :: "nat \<Rightarrow> string" where
  "decimal n =
     (if n < 10 then [''0123456789'' ! n]
      else decimal (n div 10) @ [''0123456789'' ! (n mod 10)])"

declare decimal.simps [simp del]

fun join :: "string \<Rightarrow> string list \<Rightarrow> string" where
  "join sep [] = []"
| "join sep [s] = s"
| "join sep (s # t # ss) = s @ sep @ join sep (t # ss)"

text \<open>
  ToString (also ToPropertyKey, and the conversion inside a template literal). A plain
  object prints as \<^verbatim>\<open>[object Object]\<close>; when it owns a \<^verbatim>\<open>toString\<close> property (a JSON
  value, hence not callable) the conversion falls through to \<^verbatim>\<open>valueOf\<close>, finds no
  primitive and raises a TypeError: the result \<^const>\<open>None\<close>.
\<close>

fun to_string :: "jsval \<Rightarrow> string option" where
  "to_string JUndef = Some ''undefined''"
| "to_string JNull = Some ''null''"
| "to_string (JBool b) = Some (if b then ''true'' else ''false'')"
| "to_string (JNum n) = Some (if n < 0 then ''-'' @ decimal (nat (- n)) else decimal (nat n))"
| "to_string (JStr s) = Some s"
| "to_string (JArr xs) =
     map_option (join '','')
       (those (map (\<lambda>x. if nullish x then Some [] else to_string x) xs))"
| "to_string (JObj kvs) =
     (if ''toString'' \<in> fst ` set kvs then None else Some ''[object Object]'')"

text \<open>The own enumerable properties \<^verbatim>\<open>Object.assign\<close> copies from a source value.\<close>

fun own_props :: "jsval \<Rightarrow> (string \<times> jsval) list" where
  "own_props (JObj kvs) = kvs"
| "own_props (JArr xs) = zip (map decimal [0..<length xs]) xs"
| "own_props (JStr s) = zip (map decimal [0..<length s]) (map (\<lambda>c. JStr [c]) s)"
| "own_props v = []"

text \<open>
  \<^verbatim>\<open>Object.assign(target, source)\<close> on property lists: for each own property of the
  source, in order, \<^verbatim>\<open>target[key] = value\<close>. An existing key keeps its place, a new one
  is appended. An object has one property of a name: \<^const>\<open>AList.clearjunk\<close> keeps the
  binding \<^const>\<open>map_of\<close> reads.
\<close>

definition assign :: "(string \<times> 'v) list \<Rightarrow> (string \<times> 'v) list \<Rightarrow> (string \<times> 'v) list" where
  "assign target source =
     foldl (\<lambda>t (k, v). AList.update k v t) target (AList.clearjunk source)"

section \<open>Functions, exceptions and the host environment\<close>

text \<open>
  The function values the bus stores and calls: the default callback of \<^verbatim>\<open>publish\<close>
  (\<^verbatim>\<open>() => undefined\<close>), a function supplied by a caller (opaque, named by a number), and
  the response closure \<^verbatim>\<open>downloadRuntime\<close> builds around its caller's callback.
\<close>

datatype fn =
    Noop
  | User nat
  | DownloadRuntimeResponse fn

text \<open>An argument handed to a function: a plain value or an \<^verbatim>\<open>Error\<close> with its message.\<close>

datatype arg = Val jsval | Err string

text \<open>
  Thrown values are error objects: the \<^verbatim>\<open>SyntaxError\<close> of \<^verbatim>\<open>JSON.parse\<close>, the engine's
  \<^verbatim>\<open>TypeError\<close>, Node's error for an unhandled \<^verbatim>\<open>'error'\<close> event, or an error raised by a
  caller's function. A function that throws a value that is not an error object is not
  modelled.
\<close>

datatype js_error = SyntaxError string | TypeError | UnhandledError | UserError string

text \<open>
  Who called a function: the \<^verbatim>\<open>'message'\<close> handler on a response, the timer closure,
  \<^verbatim>\<open>emit\<close>, or \<^verbatim>\<open>downloadRuntime\<close> and its closure.
\<close>

datatype origin = ByResponse | ByTimeout | ByEmit | ByDownloadRuntime

datatype log_entry =
    LogReceived string
  | LogData string
  | LogInvalidBroadcast string
  | LogNoOneWaiting string
  | LogNoMessageId
  | LogInvalidJSON js_error
  | LogArgumentError
  | LogEnvelope jsval

text \<open>
  What the bus takes from outside this file: \<^verbatim>\<open>JSON.parse\<close> (\<^const>\<open>Inl\<close> is the message of
  its SyntaxError), \<^verbatim>\<open>app.generateGUID\<close> (the n-th identifier it hands out),
  \<^verbatim>\<open>process.pid\<close>, \<^verbatim>\<open>process.versions.openfin\<close>, the result of the transport's
  \<^verbatim>\<open>publish\<close>, \<^verbatim>\<open>route.rvmMessageBus\<close>, and for each caller-supplied function whether it
  raises on given arguments. A caller-supplied function does not call back into the bus.
\<close>

record host =
  JSON_parse :: "string \<Rightarrow> string + jsval"
  generateGUID :: "nat \<Rightarrow> string"
  process_pid :: int
  openfin_version :: string
  transport_publish :: "jsval \<Rightarrow> bool"
  route_rvmMessageBus :: "string \<Rightarrow> jsval \<Rightarrow> jsval \<Rightarrow> js_error + string"
  raises :: "nat \<Rightarrow> arg list \<Rightarrow> js_error option"

text \<open>
  The closure \<^verbatim>\<open>setTimeout\<close> receives in \<^verbatim>\<open>recordCallbackInfo\<close>, as the values it captured.
\<close>

record timer =
  delay_ms :: int
  timer_messageId :: string
  timer_ttl :: int
  timer_envelope :: jsval

text \<open>
  The state: the fields of \<^verbatim>\<open>RVMMessageBus\<close> (\<^verbatim>\<open>messageIdToCallback\<close>, the static
  \<^verbatim>\<open>sessionId\<close>, the listeners of the inherited \<^verbatim>\<open>EventEmitter\<close> in subscription order),
  the number of GUIDs drawn, and the chronological trace of what the bus did: log lines,
  writes to and deletions from \<^verbatim>\<open>messageIdToCallback\<close>, timers armed with \<^verbatim>\<open>setTimeout\<close>,
  function calls, envelopes handed to the transport.
\<close>

datatype event =
    Logged log_entry
  | Stored string fn
  | Deleted string
  | TimerSet timer
  | Called origin fn "arg list"
  | Sent jsval

record bus =
  messageIdToCallback :: "string \<rightharpoonup> fn"
  sessionId :: string
  listeners :: "(string \<times> fn) list"
  guids :: nat
  trace :: "event list"

definition effect :: "event \<Rightarrow> bus \<Rightarrow> bus" where
  "effect e st = st\<lparr>trace := trace st @ [e]\<rparr>"

definition writeToLog :: "log_entry \<Rightarrow> bus \<Rightarrow> bus" where
  "writeToLog e st = effect (Logged e) st"

text \<open>\<^verbatim>\<open>this.messageIdToCallback[key] = callback\<close> and \<^verbatim>\<open>delete this.messageIdToCallback[key]\<close>.\<close>

definition store_callback :: "string \<Rightarrow> fn \<Rightarrow> bus \<Rightarrow> bus" where
  "store_callback key callback st =
     effect (Stored key callback) (st\<lparr>messageIdToCallback := (messageIdToCallback st)(key \<mapsto> callback)\<rparr>)"

definition delete_callback :: "string \<Rightarrow> bus \<Rightarrow> bus" where
  "delete_callback key st =
     effect (Deleted key) (st\<lparr>messageIdToCallback := (messageIdToCallback st)(key := None)\<rparr>)"

text \<open>
  Running the body of a function value: the error it raises, if any, and the calls it
  makes. The closure of \<^verbatim>\<open>downloadRuntime\<close> is
  \<^verbatim>\<open>
  (response) => {
      const { payload } = response;
      if (payload.error) { callback(new Error(payload.error)); } else { callback(); }
  }
  \<close>
\<close>

fun fn_body :: "host \<Rightarrow> fn \<Rightarrow> arg list \<Rightarrow> js_error option \<times> event list" where
  "fn_body h Noop args = (None, [])"
| "fn_body h (User n) args = (raises h n args, [])"
| "fn_body h (DownloadRuntimeResponse callback) args =
     (case args of
        Val response # rest \<Rightarrow>
          if nullish response then (Some TypeError, [])
          else
            let payload = get_prop response ''payload'' in
            if nullish payload then (Some TypeError, [])
            else if truthy (get_prop payload ''error'') then
              (case to_string (get_prop payload ''error'') of
                 None \<Rightarrow> (Some TypeError, [])
               | Some m \<Rightarrow>
                   (case fn_body h callback [Err m] of
                      (e, es) \<Rightarrow> (e, Called ByDownloadRuntime callback [Err m] # es)))
            else
              (case fn_body h callback [] of
                 (e, es) \<Rightarrow> (e, Called ByDownloadRuntime callback [] # es))
      | _ \<Rightarrow> (Some TypeError, []))"

text \<open>
  A call: the call and what the body did enter the trace. A computation that may throw
  returns the error, if any, with the state reached: nothing is rolled back.
\<close>

definition invoke :: "host \<Rightarrow> origin \<Rightarrow> fn \<Rightarrow> arg list \<Rightarrow> bus \<Rightarrow> js_error option \<times> bus" where
  "invoke h who f args st =
     (case fn_body h f args of
        (e, es) \<Rightarrow> (e, st\<lparr>trace := trace st @ Called who f args # es\<rparr>))"

text \<open>
  \<^verbatim>\<open>EventEmitter.emit\<close>: the listeners of the channel are called in subscription order
  with the payload; an error raised by one ends the loop and propagates. An \<^verbatim>\<open>'error'\<close>
  event nobody listens to is thrown.
\<close>

fun call_listeners :: "host \<Rightarrow> fn list \<Rightarrow> arg list \<Rightarrow> bus \<Rightarrow> js_error option \<times> bus" where
  "call_listeners h [] args st = (None, st)"
| "call_listeners h (f # fs) args st =
     (case invoke h ByEmit f args st of
        (Some e, st1) \<Rightarrow> (Some e, st1)
      | (None, st1) \<Rightarrow> call_listeners h fs args st1)"

definition subscribers :: "string \<Rightarrow> bus \<Rightarrow> fn list" where
  "subscribers channel st = map snd (filter (\<lambda>l. fst l = channel) (listeners st))"

definition emit :: "host \<Rightarrow> string \<Rightarrow> jsval \<Rightarrow> bus \<Rightarrow> js_error option \<times> bus" where
  "emit h channel payload st =
     (if channel = ''error'' \<and> subscribers channel st = [] then (Some UnhandledError, st)
      else call_listeners h (subscribers channel st) [Val payload] st)"

definition on :: "string \<Rightarrow> fn \<Rightarrow> bus \<Rightarrow> bus" where
  "on channel listener st = st\<lparr>listeners := listeners st @ [(channel, listener)]\<rparr>"

section \<open>The message bus\<close>

text \<open>
  The constructor: an empty \<^verbatim>\<open>messageIdToCallback\<close>; the static \<^verbatim>\<open>sessionId\<close> is the
  first GUID drawn, when the class is defined.
\<close>

definition new_bus :: "host \<Rightarrow> bus" where
  "new_bus h =
     \<lparr>messageIdToCallback = Map.empty, sessionId = generateGUID h 0, listeners = [],
      guids = 1, trace = []\<rparr>"

text \<open>
  The body of the \<^verbatim>\<open>try\<close> in the transport's \<^verbatim>\<open>'message'\<close> handler. The key of
  \<^verbatim>\<open>messageIdToCallback\<close> is the string conversion of \<^verbatim>\<open>dataObj.messageId\<close>; the template
  literals of the two log lines convert \<^verbatim>\<open>dataObj\<close> and \<^verbatim>\<open>messageId\<close> the same way.
\<close>

definition try_block :: "host \<Rightarrow> string \<Rightarrow> bus \<Rightarrow> js_error option \<times> bus" where
  "try_block h data st =
     (case JSON_parse h data of
        Inl m \<Rightarrow> (Some (SyntaxError m), st)
      | Inr dataObj \<Rightarrow>
          if has_own dataObj ''messageId'' then
            let messageId = get_prop dataObj ''messageId'';
                isBroadcastMessage = get_prop dataObj ''broadcast''
            in
            case to_string messageId of
              None \<Rightarrow> (Some TypeError, st)
            | Some key \<Rightarrow>
                (case messageIdToCallback st key of
                   Some callback \<Rightarrow>
                     (case invoke h ByResponse callback [Val dataObj] st of
                        (Some e, st1) \<Rightarrow> (Some e, st1)
                      | (None, st1) \<Rightarrow> (None, delete_callback key st1))
                 | None \<Rightarrow>
                     if truthy isBroadcastMessage then
                       let topic = get_prop dataObj ''topic'';
                           payload = get_prop dataObj ''payload''
                       in
                       if nullish payload then (Some TypeError, st)
                       else
                         let action = get_prop payload ''action'' in
                         if truthy topic \<and> truthy payload \<and> truthy action then
                           (case route_rvmMessageBus h ''broadcast'' topic action of
                              Inl e \<Rightarrow> (Some e, st)
                            | Inr channel \<Rightarrow> emit h channel payload st)
                         else
                           (case to_string dataObj of
                              None \<Rightarrow> (Some TypeError, st)
                            | Some s \<Rightarrow> (None, writeToLog (LogInvalidBroadcast s) st))
                     else (None, writeToLog (LogNoOneWaiting key) st))
          else (None, writeToLog LogNoMessageId st))"

text \<open>
  The handler: two log lines, the \<^verbatim>\<open>try\<close> block, and the \<^verbatim>\<open>catch\<close> that logs the
  message of whatever was thrown. The first component of the result is the error that
  leaves the handler.
\<close>

definition transport_message :: "host \<Rightarrow> string \<Rightarrow> string \<Rightarrow> bus \<Rightarrow> js_error option \<times> bus" where
  "transport_message h hwnd data st =
     (case try_block h data (writeToLog (LogData data) (writeToLog (LogReceived hwnd) st)) of
        (None, st1) \<Rightarrow> (None, st1)
      | (Some e, st1) \<Rightarrow> (None, writeToLog (LogInvalidJSON e) st1))"

text \<open>
  \<^verbatim>\<open>recordCallbackInfo(callback, timeToLiveInSeconds, envelope)\<close>. The callback is a
  function, hence truthy. \<^verbatim>\<open>publish\<close>, its only caller, passes an envelope whose
  \<^verbatim>\<open>messageId\<close> is a GUID string, so the conversion to a property key does not fail.
  \<^verbatim>\<open>_.isNumber\<close> holds of numbers only; the timer is armed with the delay in milliseconds.
\<close>

definition recordCallbackInfo :: "fn \<Rightarrow> jsval \<Rightarrow> jsval \<Rightarrow> bus \<Rightarrow> bus" where
  "recordCallbackInfo callback timeToLiveInSeconds envelope st =
     (if has_own envelope ''messageId'' then
        (case to_string (get_prop envelope ''messageId'') of
           None \<Rightarrow> st
         | Some messageId \<Rightarrow>
             let st1 = store_callback messageId callback st in
             (case timeToLiveInSeconds of
                JNum T \<Rightarrow>
                  effect (TimerSet \<lparr>delay_ms = T * 1000, timer_messageId = messageId,
                                    timer_ttl = T, timer_envelope = envelope\<rparr>) st1
              | _ \<Rightarrow> st1))
      else st)"

text \<open>
  The function handed to \<^verbatim>\<open>setTimeout\<close> is a \<^verbatim>\<open>function () {...}\<close> expression, so its
  \<^verbatim>\<open>this\<close> is the receiver of the call, not the \<^verbatim>\<open>this\<close> of \<^verbatim>\<open>recordCallbackInfo\<close>.
  \<^verbatim>\<open>this.messageIdToCallback\<close> is the table when the receiver is the bus and
  \<^verbatim>\<open>undefined\<close> when it is the timer's own Timeout object.
\<close>

datatype receiver = BusInstance | TimeoutObject

definition this_messageIdToCallback :: "receiver \<Rightarrow> bus \<Rightarrow> (string \<rightharpoonup> fn) option" where
  "this_messageIdToCallback recv st =
     (case recv of BusInstance \<Rightarrow> Some (messageIdToCallback st) | TimeoutObject \<Rightarrow> None)"

definition ttl_closure :: "host \<Rightarrow> receiver \<Rightarrow> timer \<Rightarrow> bus \<Rightarrow> js_error option \<times> bus" where
  "ttl_closure h recv t st =
     (case this_messageIdToCallback recv st of
        None \<Rightarrow> (None, st)
      | Some table \<Rightarrow>
          (case table (timer_messageId t) of
             None \<Rightarrow> (None, st)
           | Some callback \<Rightarrow>
               (case invoke h ByTimeout callback
                       [Val (JObj [(''time-to-live-expiration'', JNum (timer_ttl t)),
                                   (''envelope'', timer_envelope t)])] st of
                  (Some e, st1) \<Rightarrow> (Some e, st1)
                | (None, st1) \<Rightarrow> (None, delete_callback (timer_messageId t) st1))))"

text \<open>\<^verbatim>\<open>setTimeout\<close> calls the function it was given with the Timeout object as receiver.\<close>

definition timer_fires :: "host \<Rightarrow> timer \<Rightarrow> bus \<Rightarrow> js_error option \<times> bus" where
  "timer_fires h t st = ttl_closure h TimeoutObject t st"

text \<open>
  The payload of \<^verbatim>\<open>publish\<close>: the object literal with the process metadata, the fields of
  the message assigned over it, \<^verbatim>\<open>topic\<close> deleted.
\<close>

definition process_metadata :: "host \<Rightarrow> (string \<times> jsval) list" where
  "process_metadata h =
     [(''processId'', JNum (process_pid h)), (''runtimeVersion'', JStr (openfin_version h))]"

definition payload_fields :: "host \<Rightarrow> jsval \<Rightarrow> (string \<times> jsval) list" where
  "payload_fields h msg = AList.delete ''topic'' (assign (process_metadata h) (own_props msg))"

text \<open>\<^verbatim>\<open>publish(msg, callback = () => undefined)\<close>; \<^const>\<open>None\<close> is the omitted callback.\<close>

definition publish :: "host \<Rightarrow> jsval \<Rightarrow> fn option \<Rightarrow> bus \<Rightarrow> bool \<times> bus" where
  "publish h msg callback st =
     (if \<not> truthy msg \<or> \<not> typeof_object msg then (False, writeToLog LogArgumentError st)
      else
        let topic = get_prop msg ''topic'';
            timeToLive = get_prop msg ''timeToLive'';
            payload = payload_fields h msg;
            envelope = JObj [(''topic'', topic),
                             (''messageId'', JStr (generateGUID h (guids st))),
                             (''payload'', JObj payload)];
            st1 = st\<lparr>guids := Suc (guids st)\<rparr>;
            st2 = recordCallbackInfo (case callback of None \<Rightarrow> Noop | Some f \<Rightarrow> f)
                    timeToLive envelope st1;
            st3 = writeToLog (LogEnvelope envelope) st2
        in (transport_publish h envelope, effect (Sent envelope) st3))"




text \<open>
  \<^verbatim>\<open>downloadRuntime(options, callback)\<close>: an error raised by the callback in the failure
  branch leaves the method.
\<close>

definition runtime_download_message :: "jsval \<Rightarrow> (string \<times> jsval) list" where
  "runtime_download_message options =
     assign [(''topic'', JStr ''application''), (''action'', JStr ''runtime-download'')]
       (own_props options)"

definition downloadRuntime :: "host \<Rightarrow> jsval \<Rightarrow> fn \<Rightarrow> bus \<Rightarrow> js_error option \<times> bus" where
  "downloadRuntime h options callback st =
     (let rvmMessage = runtime_download_message options
      in case publish h (JObj rvmMessage) (Some (DownloadRuntimeResponse callback)) st of
           (publishSuccess, st1) \<Rightarrow>
             if \<not> publishSuccess
             then invoke h ByDownloadRuntime callback [Err ''RVM Message failed.''] st1
             else (None, st1))"

section \<open>The payload copy of \<^verbatim>\<open>publish\<close> on a store of objects\<close>

text \<open>
  Objects are mutable and passed by reference. For the question whether \<^verbatim>\<open>publish\<close>
  writes to its caller's object, the statements that build the payload are modelled on a
  store: a list of objects, an address being an index. \<^verbatim>\<open>msg\<close> is the address of the
  caller's object; the literal \<^verbatim>\<open>{processId, runtimeVersion}\<close> allocates a new object,
  \<^verbatim>\<open>Object.assign\<close> writes to its first argument and returns it, \<^verbatim>\<open>delete\<close> writes to
  \<^verbatim>\<open>payload\<close>. The result is the address of the payload with the new store, or
  \<^const>\<open>None\<close> when \<^verbatim>\<open>msg\<close> is no object of the store.
\<close>

type_synonym 'v store = "(string \<times> 'v) list list"

definition alloc :: "(string \<times> 'v) list \<Rightarrow> 'v store \<Rightarrow> nat \<times> 'v store" where
  "alloc obj H = (length H, H @ [obj])"

definition object_assign :: "nat \<Rightarrow> nat \<Rightarrow> 'v store \<Rightarrow> nat \<times> 'v store" where
  "object_assign target source H = (target, H[target := assign (H ! target) (H ! source)])"

definition delete_property :: "nat \<Rightarrow> string \<Rightarrow> 'v store \<Rightarrow> 'v store" where
  "delete_property obj k H = H[obj := AList.delete k (H ! obj)]"

definition publish_payload :: "(string \<times> 'v) list \<Rightarrow> nat \<Rightarrow> 'v store \<Rightarrow> (nat \<times> 'v store) option" where
  "publish_payload meta msg H =
     (if msg < length H then
        (case alloc meta H of
           (literal, H1) \<Rightarrow>
             (case object_assign literal msg H1 of
                (payload, H2) \<Rightarrow> Some (payload, delete_property payload ''topic'' H2)))
      else None)"

section \<open>Runs of the bus\<close>




text \<open>
  Kinds of events: calls of pending callbacks (by the response handler or by a timer),
  calls of listeners by \<^verbatim>\<open>emit\<close>, calls of any function, timers armed.
\<close>

fun is_delivery :: "event \<Rightarrow> bool" where
  "is_delivery (Called ByResponse f args) = True"
| "is_delivery (Called ByTimeout f args) = True"
| "is_delivery e = False"

fun is_emission :: "event \<Rightarrow> bool" where
  "is_emission (Called ByEmit f args) = True"
| "is_emission e = False"

fun is_call :: "event \<Rightarrow> bool" where
  "is_call (Called who f args) = True"
| "is_call e = False"

fun is_timer :: "event \<Rightarrow> bool" where
  "is_timer (TimerSet t) = True"
| "is_timer e = False"

text \<open>
  \<open>reached\<close> are the listeners \<^verbatim>\<open>emit\<close> gets to: all up to the first that raises.
\<close>

definition raises_on :: "host \<Rightarrow> fn \<Rightarrow> arg list \<Rightarrow> bool" where
  "raises_on h f args = (fst (fn_body h f args) \<noteq> None)"

fun reached :: "host \<Rightarrow> arg list \<Rightarrow> fn list \<Rightarrow> fn list" where
  "reached h args [] = []"
| "reached h args (f # fs) = (if raises_on h f args then [f] else f # reached h args fs)"

text \<open>The table key a raw payload addresses, if it parses and carries a usable \<^verbatim>\<open>messageId\<close>.\<close>

definition addressed :: "host \<Rightarrow> string \<Rightarrow> string option" where
  "addressed h data =
     (case JSON_parse h data of
        Inl m \<Rightarrow> None
      | Inr dataObj \<Rightarrow>
          if has_own dataObj ''messageId'' then to_string (get_prop dataObj ''messageId'')
          else None)"

section \<open>A concrete host and concrete inputs\<close>

text \<open>
  Raw payloads as the transport delivers them, each with the value \<^verbatim>\<open>JSON.parse\<close> returns
  for it; any other text is rejected with a SyntaxError.
\<close>

definition json_samples :: "(string \<times> jsval) list" where
  \<open>json_samples =
    [(''{"messageId":"guid-1"}'',
        JObj [(''messageId'', JStr ''guid-1'')]),
     (''{"messageId":"guid-1","payload":{}}'',
        JObj [(''messageId'', JStr ''guid-1''), (''payload'', JObj [])]),
     (''{"messageId":"guid-1","payload":{"error":"disk full"}}'',
        JObj [(''messageId'', JStr ''guid-1''),
              (''payload'', JObj [(''error'', JStr ''disk full'')])]),
     (''{"messageId":"guid-1","payload":{"error":""}}'',
        JObj [(''messageId'', JStr ''guid-1''), (''payload'', JObj [(''error'', JStr [])])]),
     (''{"broadcast":true,"topic":"application-event","messageId":"x","payload":{"action":"crashed","uuid":"u1"}}'',
        JObj [(''broadcast'', JBool True), (''topic'', JStr ''application-event''),
              (''messageId'', JStr ''x''),
              (''payload'', JObj [(''action'', JStr ''crashed''), (''uuid'', JStr ''u1'')])]),
     (''{"broadcast":true,"topic":"application-event","messageId":"x","payload":{"action":""}}'',
        JObj [(''broadcast'', JBool True), (''topic'', JStr ''application-event''),
              (''messageId'', JStr ''x''), (''payload'', JObj [(''action'', JStr [])])]),
     (''{"broadcast":true,"topic":"application-event","payload":{"action":"crashed"}}'',
        JObj [(''broadcast'', JBool True), (''topic'', JStr ''application-event''),
              (''payload'', JObj [(''action'', JStr ''crashed'')])])]\<close>

definition host0 :: host where
  "host0 =
     \<lparr>JSON_parse = (\<lambda>s. case map_of json_samples s of
                           Some v \<Rightarrow> Inr v
                         | None \<Rightarrow> Inl ''Unexpected token''),
      generateGUID = (\<lambda>n. ''guid-'' @ decimal n),
      process_pid = 4242,
      openfin_version = ''8.56.30.9'',
      transport_publish = (\<lambda>envelope. True),
      route_rvmMessageBus = (\<lambda>channel topic action.
         case (to_string topic, to_string action) of
           (Some t, Some a) \<Rightarrow> Inr (join ''/'' [''rvm-message-bus'', channel, t, a])
         | _ \<Rightarrow> Inl TypeError),
      raises = (\<lambda>n args. None)\<rparr>"

text \<open>The same host with a transport that rejects every envelope.\<close>

definition host_down :: host where
  "host_down = host0\<lparr>transport_publish := (\<lambda>envelope. False)\<rparr>"

definition options0 :: jsval where
  "options0 = JObj [(''downloadId'', JStr ''d1''), (''version'', JStr ''1.2.3''),
                    (''sourceUrl'', JStr ''s'')]"

text \<open>A new bus after \<^verbatim>\<open>downloadRuntime(options0, cb)\<close>, \<^verbatim>\<open>cb\<close> being the caller's function 0.\<close>

definition st_download :: bus where
  "st_download = snd (downloadRuntime host0 options0 (User 0) (new_bus host0))"

text \<open>A request with a time to live of five seconds, and the bus after publishing it.\<close>

definition ttl_request :: jsval where
  "ttl_request = JObj [(''topic'', JStr ''app-assets''), (''type'', JStr ''get-list''),
                       (''appConfig'', JStr ''http://localhost/app.json''),
                       (''timeToLive'', JNum 5)]"

definition ttl_envelope :: jsval where
  "ttl_envelope =
     JObj [(''topic'', JStr ''app-assets''), (''messageId'', JStr ''guid-1''),
           (''payload'', JObj [(''processId'', JNum 4242), (''runtimeVersion'', JStr ''8.56.30.9''),
                               (''type'', JStr ''get-list''),
                               (''appConfig'', JStr ''http://localhost/app.json''),
                               (''timeToLive'', JNum 5)])]"

definition ttl_timer :: timer where
  "ttl_timer = \<lparr>delay_ms = 5000, timer_messageId = ''guid-1'', timer_ttl = 5,
                 timer_envelope = ttl_envelope\<rparr>"

definition st_ttl :: bus where
  "st_ttl = snd (publish host0 ttl_request (Some (User 0)) (new_bus host0))"



text \<open>Buses with listeners: two on the channel of crashed applications and one elsewhere;
  one on the channel an empty action would name.\<close>

definition crashed_channel :: string where
  "crashed_channel = ''rvm-message-bus/broadcast/application-event/crashed''"

definition st_listeners :: bus where
  "st_listeners =
     on crashed_channel (User 3) (on ''other'' (User 2) (on crashed_channel (User 1) (new_bus host0)))"

definition st_listening_nameless :: bus where
  "st_listening_nameless =
     on ''rvm-message-bus/broadcast/application-event/'' (User 7) (new_bus host0)"

text \<open>A new bus on the rejecting transport after \<^verbatim>\<open>downloadRuntime(options0, cb)\<close>.\<close>

definition st_download_failed :: bus where
  "st_download_failed = snd (downloadRuntime host_down options0 (User 0) (new_bus host_down))"





text \<open>A store with the caller's message at address 1.\<close>

definition caller_store :: "jsval store" where
  "caller_store =
     [[(''name'', JStr ''unrelated'')],
      [(''topic'', JStr ''application''), (''action'', JStr ''hide-splashscreen''),
       (''sourceUrl'', JStr ''http://localhost/app.json'')]]"

section \<open>Properties of the model\<close>

subsection \<open>Object.assign\<close>

lemma map_of_foldl_update:
  "distinct (map fst xs) \<Longrightarrow>
   map_of (foldl (\<lambda>t (k, v). AList.update k v t) t xs) = map_of t ++ map_of xs"
proof (induction xs arbitrary: t)
  case Nil
  then show ?case by simp
next
  case (Cons x xs)
  obtain k v where x: "x = (k, v)" by (cases x)
  from Cons.prems x have notin: "k \<notin> fst ` set xs" and d: "distinct (map fst xs)" by auto
  have "map_of (foldl (\<lambda>t (k, v). AList.update k v t) t (x # xs)) =
        map_of (AList.update k v t) ++ map_of xs"
    using Cons.IH [OF d] x by simp
  also have "\<dots> = (map_of t)(k \<mapsto> v) ++ map_of xs"
    by (simp add: update_conv')
  also have "\<dots> = map_of t ++ map_of (x # xs)"
  proof (rule ext)
    fix y
    from notin have "map_of xs k = None" by (simp add: map_of_eq_None_iff)
    then show "((map_of t)(k \<mapsto> v) ++ map_of xs) y = (map_of t ++ map_of (x # xs)) y"
      by (auto simp: x map_add_def split: option.splits)
  qed
  finally show ?case .
qed

lemma map_of_assign: "map_of (assign target source) = map_of target ++ map_of source"
  unfolding assign_def
  by (simp add: map_of_foldl_update distinct_clearjunk map_of_clearjunk)

subsection \<open>Calls change the trace only\<close>

lemma fn_body_events:
  "e \<in> set (snd (fn_body h f args)) \<Longrightarrow> \<exists>g a. e = Called ByDownloadRuntime g a"
  by (induction h f args rule: fn_body.induct)
     (auto simp: Let_def split: list.splits arg.splits option.splits prod.splits if_splits)

lemma filter_fn_body:
  assumes "\<And>g a. \<not> P (Called ByDownloadRuntime g a)"
  shows "filter P (snd (fn_body h f args)) = []"
  using assms fn_body_events by (fastforce simp: filter_empty_conv)

lemma invoke_eq:
  "invoke h who f args st =
     (fst (fn_body h f args),
      st\<lparr>trace := trace st @ Called who f args # snd (fn_body h f args)\<rparr>)"
  by (simp add: invoke_def split: prod.splits)

lemma call_listeners_Cons:
  "call_listeners h (f # fs) args st =
     (case fst (fn_body h f args) of
        Some e \<Rightarrow>
          (Some e, st\<lparr>trace := trace st @ Called ByEmit f args # snd (fn_body h f args)\<rparr>)
      | None \<Rightarrow>
          call_listeners h fs args
            (st\<lparr>trace := trace st @ Called ByEmit f args # snd (fn_body h f args)\<rparr>))"
  by (simp add: invoke_eq split: option.splits)

lemma call_listeners_only_trace:
  "\<exists>es. snd (call_listeners h fs args st) = st\<lparr>trace := trace st @ es\<rparr>"
proof (induction fs arbitrary: st)
  case Nil
  show ?case by (rule exI [of _ "[]"]) simp
next
  case (Cons f fs)
  let ?st1 = "st\<lparr>trace := trace st @ Called ByEmit f args # snd (fn_body h f args)\<rparr>"
  from Cons.IH [of ?st1] obtain es where
    es: "snd (call_listeners h fs args ?st1) = ?st1\<lparr>trace := trace ?st1 @ es\<rparr>" ..
  show ?case
  proof (cases "fst (fn_body h f args)")
    case None
    then have "snd (call_listeners h (f # fs) args st) = snd (call_listeners h fs args ?st1)"
      by (simp only: call_listeners_Cons option.case)
    with es have "snd (call_listeners h (f # fs) args st) =
        st\<lparr>trace := trace st @ (Called ByEmit f args # snd (fn_body h f args) @ es)\<rparr>"
      by simp
    then show ?thesis ..
  next
    case (Some e)
    then have "snd (call_listeners h (f # fs) args st) = ?st1"
      by (simp only: call_listeners_Cons option.case snd_conv)
    then show ?thesis ..
  qed
qed

lemma call_listeners_emissions:
  "filter is_emission (trace (snd (call_listeners h fs args st))) =
   filter is_emission (trace st) @ map (\<lambda>f. Called ByEmit f args) (reached h args fs)"
proof (induction fs arbitrary: st)
  case Nil
  show ?case by simp
next
  case (Cons f fs)
  have inner: "filter is_emission (snd (fn_body h f args)) = []"
    by (rule filter_fn_body) simp
  let ?st1 = "st\<lparr>trace := trace st @ Called ByEmit f args # snd (fn_body h f args)\<rparr>"
  show ?case
  proof (cases "fst (fn_body h f args)")
    case None
    then have "snd (call_listeners h (f # fs) args st) = snd (call_listeners h fs args ?st1)"
      by (simp only: call_listeners_Cons option.case)
    with Cons.IH [of ?st1] None inner show ?thesis by (simp add: raises_on_def)
  next
    case (Some e)
    then have "snd (call_listeners h (f # fs) args st) = ?st1"
      by (simp only: call_listeners_Cons option.case snd_conv)
    with Some inner show ?thesis by (simp add: raises_on_def)
  qed
qed

lemma call_listeners_deliveries:
  "filter is_delivery (trace (snd (call_listeners h fs args st))) = filter is_delivery (trace st)"
proof (induction fs arbitrary: st)
  case Nil
  show ?case by simp
next
  case (Cons f fs)
  have inner: "filter is_delivery (snd (fn_body h f args)) = []"
    by (rule filter_fn_body) simp
  let ?st1 = "st\<lparr>trace := trace st @ Called ByEmit f args # snd (fn_body h f args)\<rparr>"
  show ?case
  proof (cases "fst (fn_body h f args)")
    case None
    then have "snd (call_listeners h (f # fs) args st) = snd (call_listeners h fs args ?st1)"
      by (simp only: call_listeners_Cons option.case)
    with Cons.IH [of ?st1] inner show ?thesis by simp
  next
    case (Some e)
    then have "snd (call_listeners h (f # fs) args st) = ?st1"
      by (simp only: call_listeners_Cons option.case snd_conv)
    with inner show ?thesis by simp
  qed
qed

lemma emit_only_trace: "\<exists>es. snd (emit h channel payload st) = st\<lparr>trace := trace st @ es\<rparr>"
proof (cases "channel = ''error'' \<and> subscribers channel st = []")
  case True
  then have "snd (emit h channel payload st) = st\<lparr>trace := trace st @ []\<rparr>"
    by (auto simp: emit_def)
  then show ?thesis ..
next
  case False
  then have "emit h channel payload st = call_listeners h (subscribers channel st) [Val payload] st"
    unfolding emit_def by (simp only: if_False)
  then show ?thesis using call_listeners_only_trace by simp
qed

lemma emit_table:
  "messageIdToCallback (snd (emit h channel payload st)) = messageIdToCallback st"
proof -
  from emit_only_trace [of h channel payload st] obtain es
    where "snd (emit h channel payload st) = st\<lparr>trace := trace st @ es\<rparr>" ..
  then show ?thesis by simp
qed

lemma emit_emissions:
  "filter is_emission (trace (snd (emit h channel payload st))) =
   filter is_emission (trace st) @
   map (\<lambda>f. Called ByEmit f [Val payload]) (reached h [Val payload] (subscribers channel st))"
proof (cases "channel = ''error'' \<and> subscribers channel st = []")
  case True
  then show ?thesis by (auto simp: emit_def)
next
  case False
  then have "emit h channel payload st = call_listeners h (subscribers channel st) [Val payload] st"
    unfolding emit_def by (simp only: if_False)
  then show ?thesis by (simp add: call_listeners_emissions)
qed

lemma emit_deliveries:
  "filter is_delivery (trace (snd (emit h channel payload st))) = filter is_delivery (trace st)"
proof (cases "channel = ''error'' \<and> subscribers channel st = []")
  case True
  then show ?thesis by (auto simp: emit_def)
next
  case False
  then have "emit h channel payload st = call_listeners h (subscribers channel st) [Val payload] st"
    unfolding emit_def by (simp only: if_False)
  then show ?thesis by (simp add: call_listeners_deliveries)
qed

subsection \<open>The message handler\<close>

lemma transport_message_eq:
  "transport_message h hwnd data st =
    (None,
     case try_block h data
            (st\<lparr>trace := trace st @ [Logged (LogReceived hwnd), Logged (LogData data)]\<rparr>) of
       (None, st1) \<Rightarrow> st1
     | (Some e, st1) \<Rightarrow> st1\<lparr>trace := trace st1 @ [Logged (LogInvalidJSON e)]\<rparr>)"
  by (simp add: transport_message_def writeToLog_def effect_def split: prod.splits option.splits)


section \<open>Malformed input is contained\<close>



section \<open>Validation of the argument of publish\<close>

text \<open>
  C6. For an argument that is neither a plain object nor an array (undefined, null, a
  boolean, a number, a string), \<^verbatim>\<open>publish\<close> returns false and its only effect is the
  error log line: nothing is handed to the transport and \<^verbatim>\<open>messageIdToCallback\<close> is as
  before.
\<close>

theorem publish_rejects_non_object:
  assumes "\<not> (\<exists>xs. msg = JArr xs)" and "\<not> (\<exists>kvs. msg = JObj kvs)"
  shows "publish h msg callback st =
           (False, st\<lparr>trace := trace st @ [Logged LogArgumentError]\<rparr>)"
  using assms by (cases msg) (simp_all add: publish_def writeToLog_def effect_def)

theorem publish_rejects_non_object_witness:
  "publish host0 JNull (Some (User 0)) (new_bus host0) =
     (False, (new_bus host0)\<lparr>trace := trace (new_bus host0) @ [Logged LogArgumentError]\<rparr>) \<and>
   publish host0 (JStr ''string'') None (new_bus host0) =
     (False, (new_bus host0)\<lparr>trace := trace (new_bus host0) @ [Logged LogArgumentError]\<rparr>)"
  using publish_rejects_non_object [of JNull host0 "Some (User 0)" "new_bus host0"]
        publish_rejects_non_object [of "JStr ''string''" host0 None "new_bus host0"]
  by simp

section \<open>Messages without a messageId\<close>

text \<open>
  C8. A payload that parses to a value without an own \<^verbatim>\<open>messageId\<close> is logged and
  dropped: the handler adds its three log lines and does nothing else (no call of a
  pending callback or of a listener), whatever the \<^verbatim>\<open>broadcast\<close>, \<^verbatim>\<open>topic\<close> and
  \<^verbatim>\<open>payload.action\<close> of the message.
\<close>

theorem message_without_messageId_dropped:
  assumes "JSON_parse h data = Inr dataObj" and "\<not> has_own dataObj ''messageId''"
  shows "transport_message h hwnd data st =
           (None, st\<lparr>trace := trace st @
              [Logged (LogReceived hwnd), Logged (LogData data), Logged LogNoMessageId]\<rparr>)"
  using assms by (simp add: transport_message_def try_block_def writeToLog_def effect_def)

text \<open>
  A broadcast with topic and action but no \<^verbatim>\<open>messageId\<close>, with a listener subscribed to
  its channel and a request pending.
\<close>

theorem message_without_messageId_dropped_witness:
  \<open>transport_message host0 ''rvm''
     ''{"broadcast":true,"topic":"application-event","payload":{"action":"crashed"}}''
     (on ''rvm-message-bus/broadcast/application-event/crashed'' (User 1) st_download) =
   (None, (on ''rvm-message-bus/broadcast/application-event/crashed'' (User 1) st_download)
      \<lparr>trace := trace (on ''rvm-message-bus/broadcast/application-event/crashed'' (User 1) st_download) @
         [Logged (LogReceived ''rvm''),
          Logged (LogData ''{"broadcast":true,"topic":"application-event","payload":{"action":"crashed"}}''),
          Logged LogNoMessageId]\<rparr>)\<close>
proof -
  have p: \<open>JSON_parse host0
             ''{"broadcast":true,"topic":"application-event","payload":{"action":"crashed"}}'' =
           Inr (JObj [(''broadcast'', JBool True), (''topic'', JStr ''application-event''),
                      (''payload'', JObj [(''action'', JStr ''crashed'')])])\<close>
    by (simp add: host0_def json_samples_def)
  show ?thesis
    by (rule message_without_messageId_dropped [OF p]) simp
qed

section \<open>Responses and timers\<close>

text \<open>A message that addresses no pending entry calls no pending callback.\<close>

lemma unaddressed_no_delivery:
  assumes "\<And>key. addressed h data = Some key \<Longrightarrow> messageIdToCallback st key = None"
  shows "filter is_delivery (trace (snd (transport_message h hwnd data st))) =
           filter is_delivery (trace st) \<and>
         messageIdToCallback (snd (transport_message h hwnd data st)) = messageIdToCallback st"
proof -
  let ?st0 = "st\<lparr>trace := trace st @ [Logged (LogReceived hwnd), Logged (LogData data)]\<rparr>"
  have tb: "filter is_delivery (trace (snd (try_block h data ?st0))) = filter is_delivery (trace st) \<and>
            messageIdToCallback (snd (try_block h data ?st0)) = messageIdToCallback st"
  proof (cases "JSON_parse h data")
    case (Inl m)
    then show ?thesis by (simp add: try_block_def)
  next
    case (Inr dataObj)
    show ?thesis
    proof (cases "has_own dataObj ''messageId''")
      case False
      with Inr show ?thesis by (simp add: try_block_def writeToLog_def effect_def)
    next
      case True
      show ?thesis
      proof (cases "to_string (get_prop dataObj ''messageId'')")
        case None
        with Inr True show ?thesis by (simp add: try_block_def)
      next
        case (Some key)
        with Inr True have "addressed h data = Some key" by (simp add: addressed_def)
        then have none: "messageIdToCallback ?st0 key = None" using assms by simp
        have ed: "\<And>channel payload.
           filter is_delivery (trace (snd (emit h channel payload ?st0))) =
           filter is_delivery (trace st)"
          by (simp add: emit_deliveries)
        from Inr True Some none show ?thesis
          by (auto simp: try_block_def Let_def writeToLog_def effect_def emit_table ed
                   split: option.splits sum.splits)
      qed
    qed
  qed
  then show ?thesis
    by (cases "try_block h data ?st0") (auto simp: transport_message_eq split: option.splits)
qed

text \<open>A response to a pending request whose callback returns.\<close>

lemma response_step:
  assumes parse: "JSON_parse h data = Inr dataObj"
    and has: "has_own dataObj ''messageId''"
    and key: "to_string (get_prop dataObj ''messageId'') = Some key"
    and pending: "messageIdToCallback st key = Some callback"
    and returns: "\<not> raises_on h callback [Val dataObj]"
  shows "snd (transport_message h hwnd data st) =
           st\<lparr>messageIdToCallback := (messageIdToCallback st)(key := None),
              trace := trace st @ [Logged (LogReceived hwnd), Logged (LogData data),
                                   Called ByResponse callback [Val dataObj]] @
                       snd (fn_body h callback [Val dataObj]) @ [Deleted key]\<rparr>"
  using assms
  by (simp add: transport_message_eq try_block_def invoke_eq raises_on_def delete_callback_def
        effect_def)

text \<open>
  The timer closure does nothing when the entry is gone, whatever its receiver; called
  by \<^verbatim>\<open>setTimeout\<close> it does nothing at all; had it been bound to the bus it would deliver
  the notice and delete the entry.
\<close>

lemma ttl_closure_absent:
  "messageIdToCallback st (timer_messageId t) = None \<Longrightarrow> ttl_closure h recv t st = (None, st)"
  by (cases recv) (simp_all add: ttl_closure_def this_messageIdToCallback_def)


lemma ttl_closure_bound_to_bus:
  assumes "messageIdToCallback st (timer_messageId t) = Some callback"
    and "\<not> raises_on h callback
            [Val (JObj [(''time-to-live-expiration'', JNum (timer_ttl t)),
                        (''envelope'', timer_envelope t)])]"
  shows "ttl_closure h BusInstance t st =
     (None, st\<lparr>messageIdToCallback := (messageIdToCallback st)(timer_messageId t := None),
               trace := trace st @
                 Called ByTimeout callback
                   [Val (JObj [(''time-to-live-expiration'', JNum (timer_ttl t)),
                               (''envelope'', timer_envelope t)])] #
                 snd (fn_body h callback
                   [Val (JObj [(''time-to-live-expiration'', JNum (timer_ttl t)),
                               (''envelope'', timer_envelope t)])]) @
                 [Deleted (timer_messageId t)]\<rparr>)"
  using assms
  by (simp add: ttl_closure_def this_messageIdToCallback_def invoke_eq raises_on_def
        delete_callback_def effect_def)

text \<open>
  C1, as amended. When the pending callback returns normally on the response, a response
  whose \<^verbatim>\<open>messageId\<close> matches a pending entry calls that callback once, with the parsed
  response, and deletes the entry; a second identical response then calls no pending
  callback and leaves the table as it is; and the timer closure of that \<^verbatim>\<open>messageId\<close>,
  run after the response with either receiver, does nothing.
\<close>

theorem response_delivered_once:
  assumes parse: "JSON_parse h data = Inr dataObj"
    and has: "has_own dataObj ''messageId''"
    and key: "to_string (get_prop dataObj ''messageId'') = Some key"
    and pending: "messageIdToCallback st key = Some callback"
    and returns: "\<not> raises_on h callback [Val dataObj]"
  shows "filter is_delivery (trace (snd (transport_message h hwnd data st))) =
           filter is_delivery (trace st) @ [Called ByResponse callback [Val dataObj]] \<and>
         messageIdToCallback (snd (transport_message h hwnd data st)) =
           (messageIdToCallback st)(key := None) \<and>
         filter is_delivery
             (trace (snd (transport_message h hwnd' data (snd (transport_message h hwnd data st))))) =
           filter is_delivery (trace (snd (transport_message h hwnd data st))) \<and>
         messageIdToCallback
             (snd (transport_message h hwnd' data (snd (transport_message h hwnd data st)))) =
           messageIdToCallback (snd (transport_message h hwnd data st)) \<and>
         (\<forall>recv t. timer_messageId t = key \<longrightarrow>
            ttl_closure h recv t (snd (transport_message h hwnd data st)) =
              (None, snd (transport_message h hwnd data st)))"
proof -
  let ?st1 = "snd (transport_message h hwnd data st)"
  have inner: "filter is_delivery (snd (fn_body h callback [Val dataObj])) = []"
    by (rule filter_fn_body) simp
  have st1: "?st1 = st\<lparr>messageIdToCallback := (messageIdToCallback st)(key := None),
              trace := trace st @ [Logged (LogReceived hwnd), Logged (LogData data),
                                   Called ByResponse callback [Val dataObj]] @
                       snd (fn_body h callback [Val dataObj]) @ [Deleted key]\<rparr>"
    by (rule response_step [OF assms])
  have d1: "filter is_delivery (trace ?st1) =
           filter is_delivery (trace st) @ [Called ByResponse callback [Val dataObj]]"
    by (simp add: st1 inner)
  have t1: "messageIdToCallback ?st1 = (messageIdToCallback st)(key := None)"
    by (simp add: st1)
  have addr: "addressed h data = Some key"
    using parse has key by (simp add: addressed_def)
  have gone: "\<And>k. addressed h data = Some k \<Longrightarrow> messageIdToCallback ?st1 k = None"
    using addr t1 by simp
  note second = unaddressed_no_delivery [of h data ?st1 hwnd', OF gone]
  have ttl: "\<forall>recv t. timer_messageId t = key \<longrightarrow> ttl_closure h recv t ?st1 = (None, ?st1)"
    using t1 by (auto intro: ttl_closure_absent)
  from d1 t1 second ttl show ?thesis by blast
qed

text \<open>The request of \<^verbatim>\<open>downloadRuntime\<close> answered twice with an empty payload.\<close>

theorem response_delivered_once_witness:
  \<open>messageIdToCallback st_download ''guid-1'' = Some (DownloadRuntimeResponse (User 0)) \<and>
   \<not> raises_on host0 (DownloadRuntimeResponse (User 0))
        [Val (JObj [(''messageId'', JStr ''guid-1''), (''payload'', JObj [])])] \<and>
   filter is_delivery
     (trace (snd (transport_message host0 ''rvm'' ''{"messageId":"guid-1","payload":{}}''
                    st_download))) =
     [Called ByResponse (DownloadRuntimeResponse (User 0))
        [Val (JObj [(''messageId'', JStr ''guid-1''), (''payload'', JObj [])])]] \<and>
   messageIdToCallback
     (snd (transport_message host0 ''rvm'' ''{"messageId":"guid-1","payload":{}}'' st_download))
     ''guid-1'' = None \<and>
   filter is_delivery
     (trace (snd (transport_message host0 ''rvm'' ''{"messageId":"guid-1","payload":{}}''
        (snd (transport_message host0 ''rvm'' ''{"messageId":"guid-1","payload":{}}''
                st_download))))) =
     [Called ByResponse (DownloadRuntimeResponse (User 0))
        [Val (JObj [(''messageId'', JStr ''guid-1''), (''payload'', JObj [])])]]\<close>
proof -
  let ?obj = "JObj [(''messageId'', JStr ''guid-1''), (''payload'', JObj [])]"
  have p: \<open>JSON_parse host0 ''{"messageId":"guid-1","payload":{}}'' = Inr ?obj\<close>
    by (simp add: host0_def json_samples_def)
  have hs: "has_own ?obj ''messageId''" by simp
  have k: "to_string (get_prop ?obj ''messageId'') = Some ''guid-1''" by simp
  have st: "messageIdToCallback st_download ''guid-1'' = Some (DownloadRuntimeResponse (User 0))"
    "filter is_delivery (trace st_download) = []"
    by (simp_all add: st_download_def downloadRuntime_def publish_def recordCallbackInfo_def
          store_callback_def effect_def writeToLog_def new_bus_def host0_def
          options0_def runtime_download_message_def payload_fields_def process_metadata_def
          assign_def decimal.simps Let_def)
  have r: "\<not> raises_on host0 (DownloadRuntimeResponse (User 0)) [Val ?obj]"
    by (simp add: raises_on_def host0_def)
  from response_delivered_once [OF p hs k st(1) r, of "''rvm''" "''rvm''"] st r
  show ?thesis by simp
qed

text \<open>
  The claim as stated fails when the callback raises. The closure of \<^verbatim>\<open>downloadRuntime\<close>
  reads \<^verbatim>\<open>payload.error\<close> of a response without \<^verbatim>\<open>payload\<close>: the TypeError skips the
  \<^verbatim>\<open>delete\<close>, the entry stays, and the same response calls the closure a second time.
\<close>

theorem response_delivered_once_counterexample:
  \<open>filter is_delivery
     (trace (snd (transport_message host0 ''rvm'' ''{"messageId":"guid-1"}''
              (snd (transport_message host0 ''rvm'' ''{"messageId":"guid-1"}'' st_download))))) =
     [Called ByResponse (DownloadRuntimeResponse (User 0))
        [Val (JObj [(''messageId'', JStr ''guid-1'')])],
      Called ByResponse (DownloadRuntimeResponse (User 0))
        [Val (JObj [(''messageId'', JStr ''guid-1'')])]] \<and>
   messageIdToCallback
     (snd (transport_message host0 ''rvm'' ''{"messageId":"guid-1"}''
              (snd (transport_message host0 ''rvm'' ''{"messageId":"guid-1"}'' st_download))))
     ''guid-1'' =
     Some (DownloadRuntimeResponse (User 0))\<close>
  by (simp add: st_download_def downloadRuntime_def publish_def recordCallbackInfo_def
        store_callback_def effect_def writeToLog_def new_bus_def host0_def json_samples_def
        options0_def runtime_download_message_def payload_fields_def process_metadata_def
        assign_def decimal.simps transport_message_def try_block_def invoke_def
        Let_def)

text \<open>
  C2. A request published with \<^verbatim>\<open>timeToLive: 5\<close> arms a timer of 5000 ms; when the
  timer fires with no response received, \<^verbatim>\<open>setTimeout\<close> calls the closure with the
  Timeout object as \<^verbatim>\<open>this\<close>, \<^verbatim>\<open>this.messageIdToCallback\<close> is undefined, and nothing
  happens: the callback is not called and the entry stays in the table.
\<close>

theorem ttl_expiry_delivers_nothing:
  "trace st_ttl = [Stored ''guid-1'' (User 0), TimerSet ttl_timer,
                   Logged (LogEnvelope ttl_envelope), Sent ttl_envelope] \<and>
   messageIdToCallback st_ttl ''guid-1'' = Some (User 0) \<and>
   timer_fires host0 ttl_timer st_ttl = (None, st_ttl)"
  by (simp add: st_ttl_def ttl_request_def ttl_envelope_def ttl_timer_def publish_def
        recordCallbackInfo_def store_callback_def effect_def writeToLog_def new_bus_def
        host0_def payload_fields_def process_metadata_def assign_def decimal.simps Let_def
        timer_fires_def ttl_closure_def this_messageIdToCallback_def)

section \<open>publish\<close>

lemma publish_object:
  assumes "(\<exists>kvs. msg = JObj kvs) \<or> (\<exists>xs. msg = JArr xs)"
  shows "publish h msg callback st =
    (let guid = generateGUID h (guids st);
         cb = (case callback of None \<Rightarrow> Noop | Some f \<Rightarrow> f);
         envelope = JObj [(''topic'', get_prop msg ''topic''), (''messageId'', JStr guid),
                          (''payload'', JObj (payload_fields h msg))]
     in (transport_publish h envelope,
         st\<lparr>messageIdToCallback := (messageIdToCallback st)(guid \<mapsto> cb),
            guids := Suc (guids st),
            trace := trace st @ [Stored guid cb] @
              (case get_prop msg ''timeToLive'' of
                 JNum T \<Rightarrow> [TimerSet \<lparr>delay_ms = T * 1000, timer_messageId = guid, timer_ttl = T,
                                       timer_envelope = envelope\<rparr>]
               | _ \<Rightarrow> []) @
              [Logged (LogEnvelope envelope), Sent envelope]\<rparr>))"
proof -
  from assms have obj: "truthy msg" "typeof_object msg" by auto
  show ?thesis
    by (cases "get_prop msg ''timeToLive''")
       (simp_all add: publish_def obj recordCallbackInfo_def store_callback_def effect_def
          writeToLog_def Let_def)
qed




section \<open>Broadcasts\<close>

text \<open>
  C4, as amended. A parsed message whose \<^verbatim>\<open>messageId\<close> matches no pending request and
  whose \<^verbatim>\<open>broadcast\<close> is true: when \<^verbatim>\<open>topic\<close> and \<^verbatim>\<open>payload.action\<close> are truthy and
  \<^verbatim>\<open>route.rvmMessageBus\<close> yields a channel, the listeners subscribed to that channel are
  called in subscription order, each with the payload, up to and including the first one
  that raises, no other listener is called and no pending callback is; when \<^verbatim>\<open>topic\<close>,
  \<^verbatim>\<open>payload\<close> or \<^verbatim>\<open>payload.action\<close> is missing or falsy, the handler adds three log lines
  and does nothing else.
\<close>

theorem broadcast_routing:
  assumes parse: "JSON_parse h data = Inr dataObj"
    and has: "has_own dataObj ''messageId''"
    and key: "to_string (get_prop dataObj ''messageId'') = Some key"
    and unmatched: "messageIdToCallback st key = None"
    and broadcast: "get_prop dataObj ''broadcast'' = JBool True"
  shows
    "(truthy (get_prop dataObj ''topic'') \<and>
      truthy (get_prop (get_prop dataObj ''payload'') ''action'') \<and>
      route_rvmMessageBus h ''broadcast'' (get_prop dataObj ''topic'')
         (get_prop (get_prop dataObj ''payload'') ''action'') = Inr channel \<longrightarrow>
        filter is_emission (trace (snd (transport_message h hwnd data st))) =
          filter is_emission (trace st) @
          map (\<lambda>f. Called ByEmit f [Val (get_prop dataObj ''payload'')])
              (reached h [Val (get_prop dataObj ''payload'')] (subscribers channel st)) \<and>
        filter is_delivery (trace (snd (transport_message h hwnd data st))) =
          filter is_delivery (trace st)) \<and>
     (\<not> (truthy (get_prop dataObj ''topic'') \<and> truthy (get_prop dataObj ''payload'') \<and>
         truthy (get_prop (get_prop dataObj ''payload'') ''action'')) \<longrightarrow>
        (\<exists>e. snd (transport_message h hwnd data st) =
           st\<lparr>trace := trace st @ [Logged (LogReceived hwnd), Logged (LogData data), Logged e]\<rparr>))"
proof (intro conjI impI)
  let ?st0 = "st\<lparr>trace := trace st @ [Logged (LogReceived hwnd), Logged (LogData data)]\<rparr>"
  let ?payload = "get_prop dataObj ''payload''"
  assume ok: "truthy (get_prop dataObj ''topic'') \<and>
      truthy (get_prop ?payload ''action'') \<and>
      route_rvmMessageBus h ''broadcast'' (get_prop dataObj ''topic'')
         (get_prop ?payload ''action'') = Inr channel"
  then have pl: "\<not> nullish ?payload" "truthy ?payload"
    by (cases ?payload; simp)+
  have tb: "try_block h data ?st0 = emit h channel ?payload ?st0"
    using parse has key unmatched broadcast ok pl
    by (simp add: try_block_def)
  have sub: "subscribers channel ?st0 = subscribers channel st"
    by (simp add: subscribers_def)
  have em: "filter is_emission (trace (snd (emit h channel ?payload ?st0))) =
     filter is_emission (trace st) @
       map (\<lambda>f. Called ByEmit f [Val ?payload]) (reached h [Val ?payload] (subscribers channel st))"
    by (simp add: emit_emissions sub)
  have de: "filter is_delivery (trace (snd (emit h channel ?payload ?st0))) =
     filter is_delivery (trace st)"
    by (simp add: emit_deliveries)
  show "filter is_emission (trace (snd (transport_message h hwnd data st))) =
          filter is_emission (trace st) @
          map (\<lambda>f. Called ByEmit f [Val ?payload])
              (reached h [Val ?payload] (subscribers channel st))"
    using em by (cases "emit h channel ?payload ?st0")
                (auto simp: transport_message_eq tb split: option.splits)
  show "filter is_delivery (trace (snd (transport_message h hwnd data st))) =
          filter is_delivery (trace st)"
    using de by (cases "emit h channel ?payload ?st0")
                (auto simp: transport_message_eq tb split: option.splits)
next
  let ?payload = "get_prop dataObj ''payload''"
  assume bad: "\<not> (truthy (get_prop dataObj ''topic'') \<and> truthy ?payload \<and>
         truthy (get_prop ?payload ''action''))"
  show "\<exists>e. snd (transport_message h hwnd data st) =
           st\<lparr>trace := trace st @ [Logged (LogReceived hwnd), Logged (LogData data), Logged e]\<rparr>"
  proof (cases "nullish ?payload")
    case True
    then have "snd (transport_message h hwnd data st) =
           st\<lparr>trace := trace st @ [Logged (LogReceived hwnd), Logged (LogData data),
                                   Logged (LogInvalidJSON TypeError)]\<rparr>"
      using parse has key unmatched broadcast
      by (simp add: transport_message_eq try_block_def)
    then show ?thesis ..
  next
    case False
    show ?thesis
    proof (cases "to_string dataObj")
      case None
      then have "snd (transport_message h hwnd data st) =
           st\<lparr>trace := trace st @ [Logged (LogReceived hwnd), Logged (LogData data),
                                   Logged (LogInvalidJSON TypeError)]\<rparr>"
        using parse has key unmatched broadcast False bad
        by (auto simp: transport_message_eq try_block_def)
      then show ?thesis ..
    next
      case (Some s)
      then have "snd (transport_message h hwnd data st) =
           st\<lparr>trace := trace st @ [Logged (LogReceived hwnd), Logged (LogData data),
                                   Logged (LogInvalidBroadcast s)]\<rparr>"
        using parse has key unmatched broadcast False bad
        by (auto simp: transport_message_eq try_block_def writeToLog_def effect_def)
      then show ?thesis ..
    qed
  qed
qed

text \<open>
  A crash broadcast reaches the two listeners of its channel and not the third; a
  broadcast with an empty action reaches nobody.
\<close>

theorem broadcast_routing_witness:
  \<open>filter is_emission
     (trace (snd (transport_message host0 ''rvm''
        ''{"broadcast":true,"topic":"application-event","messageId":"x","payload":{"action":"crashed","uuid":"u1"}}''
        st_listeners))) =
     [Called ByEmit (User 1) [Val (JObj [(''action'', JStr ''crashed''), (''uuid'', JStr ''u1'')])],
      Called ByEmit (User 3) [Val (JObj [(''action'', JStr ''crashed''), (''uuid'', JStr ''u1'')])]] \<and>
   filter is_call
     (trace (snd (transport_message host0 ''rvm''
        ''{"broadcast":true,"topic":"application-event","messageId":"x","payload":{"action":""}}''
        st_listeners))) = []\<close>
proof -
  let ?good = "JObj [(''broadcast'', JBool True), (''topic'', JStr ''application-event''),
              (''messageId'', JStr ''x''),
              (''payload'', JObj [(''action'', JStr ''crashed''), (''uuid'', JStr ''u1'')])]"
  let ?bad = "JObj [(''broadcast'', JBool True), (''topic'', JStr ''application-event''),
              (''messageId'', JStr ''x''), (''payload'', JObj [(''action'', JStr [])])]"
  have p1: \<open>JSON_parse host0
     ''{"broadcast":true,"topic":"application-event","messageId":"x","payload":{"action":"crashed","uuid":"u1"}}'' =
     Inr ?good\<close>
    by (simp add: host0_def json_samples_def)
  have p2: \<open>JSON_parse host0
     ''{"broadcast":true,"topic":"application-event","messageId":"x","payload":{"action":""}}'' =
     Inr ?bad\<close>
    by (simp add: host0_def json_samples_def)
  have st: "messageIdToCallback st_listeners ''x'' = None" "trace st_listeners = []"
    "subscribers crashed_channel st_listeners = [User 1, User 3]"
    by (simp_all add: st_listeners_def on_def new_bus_def subscribers_def crashed_channel_def)
  have r: "route_rvmMessageBus host0 ''broadcast'' (JStr ''application-event'') (JStr ''crashed'') =
      Inr crashed_channel"
    by (simp add: host0_def crashed_channel_def)
  have re: "reached host0 [Val (JObj [(''action'', JStr ''crashed''), (''uuid'', JStr ''u1'')])]
      [User 1, User 3] = [User 1, User 3]"
    by (simp add: raises_on_def host0_def)
  from broadcast_routing [where channel = crashed_channel and hwnd = "''rvm''", OF p1 _ _ st(1)]
    r st re
  have a: \<open>filter is_emission
     (trace (snd (transport_message host0 ''rvm''
        ''{"broadcast":true,"topic":"application-event","messageId":"x","payload":{"action":"crashed","uuid":"u1"}}''
        st_listeners))) =
     [Called ByEmit (User 1) [Val (JObj [(''action'', JStr ''crashed''), (''uuid'', JStr ''u1'')])],
      Called ByEmit (User 3) [Val (JObj [(''action'', JStr ''crashed''), (''uuid'', JStr ''u1'')])]]\<close>
    by simp
  from broadcast_routing [where channel = crashed_channel and hwnd = "''rvm''", OF p2 _ _ st(1)]
  obtain e where \<open>snd (transport_message host0 ''rvm''
        ''{"broadcast":true,"topic":"application-event","messageId":"x","payload":{"action":""}}''
        st_listeners) =
      st_listeners\<lparr>trace := trace st_listeners @
        [Logged (LogReceived ''rvm''),
         Logged (LogData ''{"broadcast":true,"topic":"application-event","messageId":"x","payload":{"action":""}}''),
         Logged e]\<rparr>\<close>
    by auto
  then have b: \<open>filter is_call
     (trace (snd (transport_message host0 ''rvm''
        ''{"broadcast":true,"topic":"application-event","messageId":"x","payload":{"action":""}}''
        st_listeners))) = []\<close>
    by (simp add: st)
  from a b show ?thesis ..
qed

text \<open>
  The claim as stated fails for a field that is present and falsy: a broadcast whose
  \<^verbatim>\<open>payload.action\<close> is the empty string is dropped, although a listener is subscribed to
  the channel built from its topic and action.
\<close>

theorem broadcast_routing_counterexample:
  \<open>get_prop (JObj [(''broadcast'', JBool True), (''topic'', JStr ''application-event''),
                   (''messageId'', JStr ''x''), (''payload'', JObj [(''action'', JStr [])])])
      ''payload'' = JObj [(''action'', JStr [])] \<and>
   JSON_parse host0
     ''{"broadcast":true,"topic":"application-event","messageId":"x","payload":{"action":""}}'' =
     Inr (JObj [(''broadcast'', JBool True), (''topic'', JStr ''application-event''),
                (''messageId'', JStr ''x''), (''payload'', JObj [(''action'', JStr [])])]) \<and>
   route_rvmMessageBus host0 ''broadcast'' (JStr ''application-event'') (JStr []) =
     Inr ''rvm-message-bus/broadcast/application-event/'' \<and>
   subscribers ''rvm-message-bus/broadcast/application-event/'' st_listening_nameless = [User 7] \<and>
   messageIdToCallback st_listening_nameless ''x'' = None \<and>
   filter is_call
     (trace (snd (transport_message host0 ''rvm''
        ''{"broadcast":true,"topic":"application-event","messageId":"x","payload":{"action":""}}''
        st_listening_nameless))) = []\<close>
  by (simp add: st_listening_nameless_def on_def subscribers_def new_bus_def host0_def
        json_samples_def transport_message_def try_block_def writeToLog_def effect_def Let_def)

section \<open>downloadRuntime\<close>

lemma runtime_download_ttl:
  "map_of (runtime_download_message options) ''timeToLive'' =
     map_of (own_props options) ''timeToLive''"
  by (simp add: runtime_download_message_def map_of_assign map_add_def split: option.splits)

lemma downloadRuntime_eq:
  "downloadRuntime h options callback st =
     (case publish h (JObj (runtime_download_message options))
             (Some (DownloadRuntimeResponse callback)) st of
        (publishSuccess, st1) \<Rightarrow>
          if publishSuccess then (None, st1)
          else invoke h ByDownloadRuntime callback [Err ''RVM Message failed.''] st1)"
  by (simp add: downloadRuntime_def Let_def split: prod.splits)

text \<open>
  C7, as amended. \<^verbatim>\<open>downloadRuntime(options, cb)\<close> stores its response closure under the
  GUID of the request, whatever the transport answers. When \<^verbatim>\<open>publish\<close> returns false,
  \<^verbatim>\<open>cb\<close> is called at once with the error \<^verbatim>\<open>RVM Message failed.\<close> and the closure stays in
  the table, with no timer armed when the options carry no numeric \<^verbatim>\<open>timeToLive\<close>. When
  the response to the request arrives with a payload: if \<^verbatim>\<open>payload.error\<close> is truthy,
  \<^verbatim>\<open>cb\<close> is called with an error whose message is the string conversion of
  \<^verbatim>\<open>payload.error\<close> (the string itself when it is one); if \<^verbatim>\<open>payload.error\<close> is absent or
  falsy, \<^verbatim>\<open>cb\<close> is called with no argument.
\<close>

theorem downloadRuntime_outcomes:
  assumes pending: "messageIdToCallback s (generateGUID h (guids st)) =
                      Some (DownloadRuntimeResponse (User n))"
    and parse: "JSON_parse h data = Inr response"
    and has: "has_own response ''messageId''"
    and key: "to_string (get_prop response ''messageId'') = Some (generateGUID h (guids st))"
    and payload: "\<not> nullish (get_prop response ''payload'')"
  shows
    "messageIdToCallback (snd (downloadRuntime h options (User n) st)) (generateGUID h (guids st)) =
       Some (DownloadRuntimeResponse (User n)) \<and>
     (\<not> fst (publish h (JObj (runtime_download_message options))
                (Some (DownloadRuntimeResponse (User n))) st) \<longrightarrow>
        filter is_call (trace (snd (downloadRuntime h options (User n) st))) =
          filter is_call (trace st) @ [Called ByDownloadRuntime (User n) [Err ''RVM Message failed.'']]) \<and>
     ((\<forall>T. map_of (own_props options) ''timeToLive'' \<noteq> Some (JNum T)) \<longrightarrow>
        filter is_timer (trace (snd (downloadRuntime h options (User n) st))) =
          filter is_timer (trace st)) \<and>
     (truthy (get_prop (get_prop response ''payload'') ''error'') \<longrightarrow>
        (\<forall>m. to_string (get_prop (get_prop response ''payload'') ''error'') = Some m \<longrightarrow>
           filter is_call (trace (snd (transport_message h hwnd data s))) =
             filter is_call (trace s) @
               [Called ByResponse (DownloadRuntimeResponse (User n)) [Val response],
                Called ByDownloadRuntime (User n) [Err m]])) \<and>
     (\<not> truthy (get_prop (get_prop response ''payload'') ''error'') \<longrightarrow>
        filter is_call (trace (snd (transport_message h hwnd data s))) =
          filter is_call (trace s) @
            [Called ByResponse (DownloadRuntimeResponse (User n)) [Val response],
             Called ByDownloadRuntime (User n) []])"
proof (intro conjI impI allI)
  let ?msg = "JObj (runtime_download_message options)"
  let ?cb = "Some (DownloadRuntimeResponse (User n))"
  let ?guid = "generateGUID h (guids st)"
  have obj: "(\<exists>kvs. ?msg = JObj kvs) \<or> (\<exists>xs. ?msg = JArr xs)" by simp
  note pub = publish_object [OF obj, of h ?cb st]
  show "messageIdToCallback (snd (downloadRuntime h options (User n) st)) ?guid =
       Some (DownloadRuntimeResponse (User n))"
    by (simp add: downloadRuntime_eq pub Let_def invoke_eq)
  {
    assume "\<not> fst (publish h ?msg ?cb st)"
    then show "filter is_call (trace (snd (downloadRuntime h options (User n) st))) =
          filter is_call (trace st) @ [Called ByDownloadRuntime (User n) [Err ''RVM Message failed.'']]"
      by (cases "get_prop ?msg ''timeToLive''")
         (simp_all add: downloadRuntime_eq pub Let_def invoke_eq)
  }
  {
    assume "\<forall>T. map_of (own_props options) ''timeToLive'' \<noteq> Some (JNum T)"
    then have "\<And>T. get_prop ?msg ''timeToLive'' \<noteq> JNum T"
      by (auto simp: runtime_download_ttl split: option.splits)
    then show "filter is_timer (trace (snd (downloadRuntime h options (User n) st))) =
          filter is_timer (trace st)"
      by (cases "get_prop ?msg ''timeToLive''")
         (simp_all add: downloadRuntime_eq pub Let_def invoke_eq)
  }
  let ?st0 = "s\<lparr>trace := trace s @ [Logged (LogReceived hwnd), Logged (LogData data)]\<rparr>"
  let ?err = "get_prop (get_prop response ''payload'') ''error''"
  {
    fix m
    assume t: "truthy ?err" and m: "to_string ?err = Some m"
    have body: "fn_body h (DownloadRuntimeResponse (User n)) [Val response] =
        (raises h n [Err m], [Called ByDownloadRuntime (User n) [Err m]])"
      using payload t m by (cases response) (simp_all add: Let_def)
    show "filter is_call (trace (snd (transport_message h hwnd data s))) =
             filter is_call (trace s) @
               [Called ByResponse (DownloadRuntimeResponse (User n)) [Val response],
                Called ByDownloadRuntime (User n) [Err m]]"
      using parse has key pending body
      by (cases "raises h n [Err m]")
         (simp_all add: transport_message_eq try_block_def invoke_eq delete_callback_def effect_def)
  }
  {
    assume t: "\<not> truthy ?err"
    have body: "fn_body h (DownloadRuntimeResponse (User n)) [Val response] =
        (raises h n [], [Called ByDownloadRuntime (User n) []])"
      using payload t by (cases response) (simp_all add: Let_def)
    show "filter is_call (trace (snd (transport_message h hwnd data s))) =
          filter is_call (trace s) @
            [Called ByResponse (DownloadRuntimeResponse (User n)) [Val response],
             Called ByDownloadRuntime (User n) []]"
      using parse has key pending body
      by (cases "raises h n []")
         (simp_all add: transport_message_eq try_block_def invoke_eq delete_callback_def effect_def)
  }
qed

text \<open>
  On the rejecting transport the caller hears of the failure at once and the closure is
  left in the table; a response with \<^verbatim>\<open>error: "disk full"\<close> gives the caller that error, a
  response with an empty payload gives none.
\<close>

theorem downloadRuntime_outcomes_witness:
  \<open>messageIdToCallback st_download_failed ''guid-1'' = Some (DownloadRuntimeResponse (User 0)) \<and>
   filter is_call (trace st_download_failed) =
     [Called ByDownloadRuntime (User 0) [Err ''RVM Message failed.'']] \<and>
   filter is_timer (trace st_download_failed) = [] \<and>
   filter is_call
     (trace (snd (transport_message host_down ''rvm''
        ''{"messageId":"guid-1","payload":{"error":"disk full"}}'' st_download_failed))) =
     [Called ByDownloadRuntime (User 0) [Err ''RVM Message failed.''],
      Called ByResponse (DownloadRuntimeResponse (User 0))
        [Val (JObj [(''messageId'', JStr ''guid-1''),
                    (''payload'', JObj [(''error'', JStr ''disk full'')])])],
      Called ByDownloadRuntime (User 0) [Err ''disk full'']] \<and>
   filter is_call
     (trace (snd (transport_message host0 ''rvm''
        ''{"messageId":"guid-1","payload":{}}'' st_download))) =
     [Called ByResponse (DownloadRuntimeResponse (User 0))
        [Val (JObj [(''messageId'', JStr ''guid-1''), (''payload'', JObj [])])],
      Called ByDownloadRuntime (User 0) []]\<close>
proof -
  let ?full = "JObj [(''messageId'', JStr ''guid-1''),
                     (''payload'', JObj [(''error'', JStr ''disk full'')])]"
  let ?empty = "JObj [(''messageId'', JStr ''guid-1''), (''payload'', JObj [])]"
  have g: "generateGUID host_down (guids (new_bus host_down)) = ''guid-1''"
      "generateGUID host0 (guids (new_bus host0)) = ''guid-1''"
    by (simp_all add: host_down_def host0_def new_bus_def decimal.simps)
  have p1: \<open>JSON_parse host_down ''{"messageId":"guid-1","payload":{"error":"disk full"}}'' =
            Inr ?full\<close>
    by (simp add: host_down_def host0_def json_samples_def)
  have p2: \<open>JSON_parse host0 ''{"messageId":"guid-1","payload":{}}'' = Inr ?empty\<close>
    by (simp add: host0_def json_samples_def)
  have fail: "\<not> fst (publish host_down (JObj (runtime_download_message options0))
                (Some (DownloadRuntimeResponse (User 0))) (new_bus host_down))"
    by (simp add: publish_def host_down_def Let_def)
  have nottl: "\<forall>T. map_of (own_props options0) ''timeToLive'' \<noteq> Some (JNum T)"
    by (simp add: options0_def)
  have tr: "trace (new_bus host_down) = []" by (simp add: new_bus_def)
  have k1: "to_string (get_prop ?full ''messageId'') =
              Some (generateGUID host_down (guids (new_bus host_down)))"
    by (simp add: g)
  have k2: "to_string (get_prop ?empty ''messageId'') =
              Some (generateGUID host0 (guids (new_bus host0)))"
    by (simp add: g)
  note one = downloadRuntime_outcomes [where h = host_down and st = "new_bus host_down"
      and s = st_download_failed and n = 0 and options = options0 and hwnd = "''rvm''",
      OF _ p1 _ k1, folded st_download_failed_def]
  have a: "messageIdToCallback st_download_failed ''guid-1'' =
             Some (DownloadRuntimeResponse (User 0))"
    by (simp add: st_download_failed_def downloadRuntime_def publish_def recordCallbackInfo_def
          store_callback_def effect_def writeToLog_def new_bus_def host_down_def host0_def
          options0_def runtime_download_message_def payload_fields_def process_metadata_def
          assign_def invoke_def Let_def decimal.simps)
  have pend1: "messageIdToCallback st_download_failed
                 (generateGUID host_down (guids (new_bus host_down))) =
               Some (DownloadRuntimeResponse (User 0))"
    using a by (simp add: g)
  from one [OF pend1] fail nottl
  have b: "filter is_call (trace st_download_failed) =
             [Called ByDownloadRuntime (User 0) [Err ''RVM Message failed.'']]"
     and c: "filter is_timer (trace st_download_failed) = []"
     and d: \<open>filter is_call
       (trace (snd (transport_message host_down ''rvm''
          ''{"messageId":"guid-1","payload":{"error":"disk full"}}'' st_download_failed))) =
       filter is_call (trace st_download_failed) @
       [Called ByResponse (DownloadRuntimeResponse (User 0)) [Val ?full],
        Called ByDownloadRuntime (User 0) [Err ''disk full'']]\<close>
    by (simp_all add: tr)
  have pend2: "messageIdToCallback st_download (generateGUID host0 (guids (new_bus host0))) =
               Some (DownloadRuntimeResponse (User 0))"
     and tr2: "filter is_call (trace st_download) = []"
    by (simp_all add: st_download_def downloadRuntime_def publish_def recordCallbackInfo_def
          store_callback_def effect_def writeToLog_def new_bus_def host0_def
          options0_def runtime_download_message_def payload_fields_def process_metadata_def
          assign_def Let_def decimal.simps)
  from downloadRuntime_outcomes [where h = host0 and st = "new_bus host0"
      and s = st_download and n = 0 and options = options0 and hwnd = "''rvm''",
      OF pend2 p2 _ k2] tr2
  have e: \<open>filter is_call
     (trace (snd (transport_message host0 ''rvm''
        ''{"messageId":"guid-1","payload":{}}'' st_download))) =
     [Called ByResponse (DownloadRuntimeResponse (User 0)) [Val ?empty],
      Called ByDownloadRuntime (User 0) []]\<close>
    by simp
  from a b c d e show ?thesis by simp
qed

text \<open>
  The claim as stated fails for an error that is present and falsy: on
  \<^verbatim>\<open>payload: {error: ""}\<close> the caller's function is called with no error.
\<close>

theorem downloadRuntime_outcomes_counterexample:
  \<open>get_prop (get_prop (JObj [(''messageId'', JStr ''guid-1''),
                              (''payload'', JObj [(''error'', JStr [])])]) ''payload'') ''error'' =
     JStr [] \<and>
   has_own (JObj [(''error'', JStr [])]) ''error'' \<and>
   filter is_call
     (trace (snd (transport_message host0 ''rvm''
        ''{"messageId":"guid-1","payload":{"error":""}}'' st_download))) =
     [Called ByResponse (DownloadRuntimeResponse (User 0))
        [Val (JObj [(''messageId'', JStr ''guid-1''), (''payload'', JObj [(''error'', JStr [])])])],
      Called ByDownloadRuntime (User 0) []]\<close>
  by (simp add: st_download_def downloadRuntime_def publish_def recordCallbackInfo_def
        store_callback_def effect_def writeToLog_def new_bus_def host0_def json_samples_def
        options0_def runtime_download_message_def payload_fields_def process_metadata_def
        assign_def decimal.simps transport_message_def try_block_def invoke_def
        delete_callback_def Let_def)

section \<open>registerLicenseInfo and the session identifier\<close>










section \<open>The caller's message object\<close>

lemma publish_payload_eq:
  assumes "msg < length H"
  shows "publish_payload meta msg H =
           Some (length H, H @ [AList.delete ''topic'' (assign meta (H ! msg))])"
  using assms
  by (simp add: publish_payload_def alloc_def object_assign_def delete_property_def nth_append)

text \<open>
  C10. Building the payload allocates a new object and writes to that object only: every
  object that was in the store before, the caller's message among them, has the fields it
  had, \<^verbatim>\<open>topic\<close> included; the new object holds the payload \<^verbatim>\<open>publish\<close> sends for that
  message.
\<close>

theorem publish_leaves_message_unmodified:
  assumes "msg < length H"
  shows "\<exists>payload H'.
           publish_payload (process_metadata h) msg H = Some (payload, H') \<and>
           payload = length H \<and>
           length H' = Suc (length H) \<and>
           (\<forall>a < length H. H' ! a = H ! a) \<and>
           H' ! msg = H ! msg \<and>
           H' ! payload = payload_fields h (JObj (H ! msg))"
  using assms by (simp add: publish_payload_eq nth_append payload_fields_def)

theorem publish_leaves_message_unmodified_witness:
  "publish_payload (process_metadata host0) 1 caller_store =
     Some (2, caller_store @
              [[(''processId'', JNum 4242), (''runtimeVersion'', JStr ''8.56.30.9''),
                (''action'', JStr ''hide-splashscreen''),
                (''sourceUrl'', JStr ''http://localhost/app.json'')]])"
proof -
  have l: "(1::nat) < length caller_store" by (simp add: caller_store_def)
  have len: "length caller_store = 2" by (simp add: caller_store_def)
  have pf: "payload_fields host0 (JObj (caller_store ! 1)) =
      [(''processId'', JNum 4242), (''runtimeVersion'', JStr ''8.56.30.9''),
       (''action'', JStr ''hide-splashscreen''), (''sourceUrl'', JStr ''http://localhost/app.json'')]"
    by (simp add: payload_fields_def process_metadata_def assign_def caller_store_def host0_def)
  from publish_leaves_message_unmodified [OF l, of host0]
  obtain payload H' where
    r: "publish_payload (process_metadata host0) 1 caller_store = Some (payload, H')"
    and p: "payload = length caller_store"
    and n: "length H' = Suc (length caller_store)"
    and same: "\<forall>a < length caller_store. H' ! a = caller_store ! a"
    and new: "H' ! payload = payload_fields host0 (JObj (caller_store ! 1))"
    by blast
  have "H' = caller_store @ [payload_fields host0 (JObj (caller_store ! 1))]"
  proof (rule nth_equalityI)
    show "length H' = length (caller_store @ [payload_fields host0 (JObj (caller_store ! 1))])"
      using n by simp
  next
    fix i assume "i < length H'"
    with n have "i < length caller_store \<or> i = length caller_store" by auto
    then show "H' ! i = (caller_store @ [payload_fields host0 (JObj (caller_store ! 1))]) ! i"
      using same new p by (auto simp: nth_append)
  qed
  with r p len pf show ?thesis by simp
qed

end
